theory Spec2Isabelle
  imports Main "HOL-Library.Word"
begin

unbundle bit_operations_syntax

section \<open>Layout mirror of \<^verbatim>\<open>unsafer.go\<close>\<close>

text \<open>
  A pointer (\<^verbatim>\<open>unsafe.Pointer\<close>, \<^verbatim>\<open>uintptr\<close>, any \<^verbatim>\<open>*T\<close>) is a machine word
  \<open>'p word\<close>, where \<open>'p\<close> is the width of \<^verbatim>\<open>uintptr\<close> on the target: \<open>64\<close> or \<open>32\<close>.
  Conversions between \<^verbatim>\<open>uintptr\<close>, \<^verbatim>\<open>unsafe.Pointer\<close> and \<^verbatim>\<open>*T\<close> keep the bits, so
  they are the identity on \<open>'p word\<close>.
\<close>

type_synonym byte = "8 word"

subsection \<open>\<^verbatim>\<open>const SystemPointerSize = 4 << (^uintptr(0) >> 63)\<close> (line 15)\<close>

text \<open>
  \<^verbatim>\<open>^uintptr(0)\<close> is a constant of type \<^verbatim>\<open>uintptr\<close> (all bits set), shifted right
  as a \<^verbatim>\<open>uintptr\<close>; the untyped constant \<^verbatim>\<open>4\<close> is then shifted left by that count with
  unbounded precision. The width of \<^verbatim>\<open>uintptr\<close> is the type argument.
\<close>

definition SystemPointerSize :: "'p::len itself \<Rightarrow> nat" where
  "SystemPointerSize w = push_bit (unat (drop_bit 63 (NOT (0 :: 'p word)))) 4"

subsection \<open>Type flags (lines 35-42)\<close>

type_synonym TypeFlag = "8 word"

definition TFlagUncommon :: TypeFlag where "TFlagUncommon = push_bit 0 1"
definition TFlagExtraStar :: TypeFlag where "TFlagExtraStar = push_bit 1 1"
definition TFlagNamed :: TypeFlag where "TFlagNamed = push_bit 2 1"
definition TFlagRegularMemory :: TypeFlag where "TFlagRegularMemory = push_bit 3 1"

text \<open>The constants of type \<^verbatim>\<open>TypeFlag\<close>, in declaration order.\<close>

definition TypeFlags_declared :: "TypeFlag list" where
  "TypeFlags_declared = [TFlagUncommon, TFlagExtraStar, TFlagNamed, TFlagRegularMemory]"

subsection \<open>Map flags (lines 87-94)\<close>

type_synonym MapFlag = "8 word"

definition BeingUsedByIterator :: MapFlag where "BeingUsedByIterator = 1"
definition OldBeingUsedByIterator :: MapFlag where "OldBeingUsedByIterator = 2"
definition BeingWrittenTo :: MapFlag where "BeingWrittenTo = 4"
definition GrowingToSameSize :: MapFlag where "GrowingToSameSize = 8"

text \<open>The constants of type \<^verbatim>\<open>MapFlag\<close>, in declaration order.\<close>

definition MapFlags_declared :: "MapFlag list" where
  "MapFlags_declared =
     [BeingUsedByIterator, OldBeingUsedByIterator, BeingWrittenTo, GrowingToSameSize]"

subsection \<open>Buckets and top-hash sentinels (lines 123, 133-140)\<close>

definition BucketSize :: nat where "BucketSize = 8"

definition LastEmptyCell :: byte where "LastEmptyCell = 0"
definition EmptyCell :: byte where "EmptyCell = 1"
definition EvacuatedToFirstHalf :: byte where "EvacuatedToFirstHalf = 2"
definition EvacuatedToSecondHalf :: byte where "EvacuatedToSecondHalf = 3"
definition EvacuatedAndEmpty :: byte where "EvacuatedAndEmpty = 4"
definition MinimumTopHash :: byte where "MinimumTopHash = 5"

text \<open>The reserved top-hash values, in declaration order.\<close>

definition TopHash_sentinels :: "byte list" where
  "TopHash_sentinels =
     [LastEmptyCell, EmptyCell, EvacuatedToFirstHalf, EvacuatedToSecondHalf, EvacuatedAndEmpty]"

text \<open>A flag constant is a single bit: it is one of \<open>1 << n\<close> for a bit position of its type.\<close>

definition single_bit :: "byte \<Rightarrow> bool" where
  "single_bit f = (f \<in> set (map (\<lambda>n. push_bit n 1) [0..<8]))"

subsection \<open>Kinds (lines 200-233)\<close>

type_synonym Kind = "8 word"



subsection \<open>Headers (lines 20-32, 72-84, 195-198)\<close>

text \<open>\<^verbatim>\<open>int\<close> fields hold a length: they are kept as integers.\<close>

record (overloaded) 'p StringInternal =
  Data :: "'p word"
  Len :: int

record (overloaded) 'p SliceInternal =
  Data :: "'p word"
  Len :: int
  Cap :: int

record (overloaded) 'p TypeInternal =
  Size :: "'p word"
  PtrData :: "'p word"
  Hash :: "32 word"
  TypeFlags :: TypeFlag
  Align :: byte
  FieldAlign :: byte
  kind :: Kind
  Equals :: "'p word"
  GCData :: "'p word"
  Name :: "32 word"
  Pointertype :: "32 word"

record (overloaded) 'p AnyInternal =
  Type :: "'p word"
  Data :: "'p word"

section \<open>Memory\<close>

text \<open>
  Data memory is byte addressed. Type descriptors live in memory of their own, read
  through a \<^verbatim>\<open>*TypeInternal\<close>: an address that holds no descriptor (the nil pointer
  among them) cannot be read, and the read has no result.
\<close>

type_synonym 'p bytemem = "'p word \<Rightarrow> byte"

type_synonym 'p typemem = "'p word \<rightharpoonup> 'p TypeInternal"

definition read_bytes :: "'p::len bytemem \<Rightarrow> 'p word \<Rightarrow> nat \<Rightarrow> byte list" where
  "read_bytes mem p n = map (\<lambda>i. mem (p + of_nat i)) [0..<n]"

text \<open>The bytes a string view and a byte slice show: \<open>Len\<close> bytes from \<open>Data\<close> on.\<close>

definition string_content :: "'p::len bytemem \<Rightarrow> 'p StringInternal \<Rightarrow> byte list" where
  "string_content mem s = read_bytes mem (StringInternal.Data s) (nat (StringInternal.Len s))"

definition slice_content :: "'p::len bytemem \<Rightarrow> 'p SliceInternal \<Rightarrow> byte list" where
  "slice_content mem s = read_bytes mem (SliceInternal.Data s) (nat (SliceInternal.Len s))"


section \<open>Raw-memory operators\<close>

text \<open>
  A parameter of type \<^verbatim>\<open>any\<close> is a two-word header, and
  \<^verbatim>\<open>(*AnyInternal)(unsafe.Pointer(&t))\<close> reads the parameter's own storage as an
  \<open>AnyInternal\<close>: a value of type \<^verbatim>\<open>any\<close> is modelled by its header.
\<close>

subsection \<open>\<^verbatim>\<open>NoEscape\<close> (lines 242-245)\<close>

definition NoEscape :: "'p::len word \<Rightarrow> 'p word" where
  "NoEscape p = (let x = p in x XOR 0)"

subsection \<open>\<^verbatim>\<open>GetTypePointer\<close>, \<^verbatim>\<open>GetTypeHash\<close>, \<^verbatim>\<open>GetKind\<close> (lines 258-280)\<close>

definition GetTypePointer :: "'p::len AnyInternal \<Rightarrow> 'p word" where
  "GetTypePointer t = (let tt = t in Type tt)"

definition GetTypeHash :: "'p::len typemem \<Rightarrow> 'p AnyInternal \<Rightarrow> 32 word option" where
  "GetTypeHash tm t =
     (let tt = t in case tm (Type tt) of None \<Rightarrow> None | Some d \<Rightarrow> Some (Hash d))"


subsection \<open>\<^verbatim>\<open>Spoof\<close> (lines 287-291)\<close>

text \<open>
  \<open>tt\<close> points at the parameter \<open>t1\<close>, so the assignment to \<open>tt.Type\<close> updates \<open>t1\<close>,
  which is then returned.
\<close>

definition Spoof :: "'p::len AnyInternal \<Rightarrow> 'p AnyInternal \<Rightarrow> 'p AnyInternal" where
  "Spoof t1 t2 = t1\<lparr>Type := GetTypePointer t2\<rparr>"

subsection \<open>\<^verbatim>\<open>Invent\<close> (lines 298-303)\<close>


subsection \<open>\<^verbatim>\<open>ByteString\<close> (lines 317-319)\<close>

text \<open>
  \<^verbatim>\<open>*(*string)(unsafe.Pointer(&slice))\<close> reads the first two words of the three-word
  slice header as a string header: \<open>Data\<close> and \<open>Len\<close>, in this order in both.
\<close>

definition ByteString :: "'p::len SliceInternal \<Rightarrow> 'p StringInternal" where
  "ByteString slice' = \<lparr>StringInternal.Data = SliceInternal.Data slice',
                          StringInternal.Len = SliceInternal.Len slice'\<rparr>"

section \<open>The host language around the operators\<close>

text \<open>
  The operators are called from Go code and run on the Go runtime, which are not part of
  the repository. What the properties below need of them is written out here: passing
  arguments by value, indexing and appending to a byte slice, and converting a typed
  value to \<^verbatim>\<open>any\<close>.
\<close>

subsection \<open>Calling \<^verbatim>\<open>Spoof\<close>: arguments are copied into the parameters\<close>

text \<open>
  Variables of type \<^verbatim>\<open>any\<close> are kept in a store, by address. A call
  \<^verbatim>\<open>Spoof(a, b)\<close>, with the caller's \<open>a\<close> and \<open>b\<close> stored at \<open>pa\<close> and \<open>pb\<close>, copies both
  headers into the parameters \<open>t1\<close> and \<open>t2\<close>, stored at \<open>pt1\<close> and \<open>pt2\<close>; the body then
  runs on the store statement by statement (lines 288-290), writing through \<open>tt\<close>.
\<close>

type_synonym 'p anyvars = "'p word \<rightharpoonup> 'p AnyInternal"

definition Spoof_body ::
  "'p::len anyvars \<Rightarrow> 'p word \<Rightarrow> 'p word \<Rightarrow> ('p AnyInternal \<times> 'p anyvars) option" where
  "Spoof_body vars pt1 pt2 =
     (let tt = pt1 in
      case vars pt2 of None \<Rightarrow> None
      | Some t2 \<Rightarrow>
          (case vars tt of None \<Rightarrow> None
           | Some x \<Rightarrow>
               (let vars' = vars(tt \<mapsto> x\<lparr>Type := GetTypePointer t2\<rparr>) in
                case vars' pt1 of None \<Rightarrow> None | Some t1 \<Rightarrow> Some (t1, vars'))))"

definition Spoof_call ::
  "'p::len anyvars \<Rightarrow> 'p word \<Rightarrow> 'p word \<Rightarrow> 'p word \<Rightarrow> 'p word \<Rightarrow>
     ('p AnyInternal \<times> 'p anyvars) option" where
  "Spoof_call vars pa pb pt1 pt2 =
     (case vars pa of None \<Rightarrow> None
      | Some a \<Rightarrow>
          (case vars pb of None \<Rightarrow> None
           | Some b \<Rightarrow> Spoof_body (vars(pt1 \<mapsto> a, pt2 \<mapsto> b)) pt1 pt2))"

subsection \<open>Byte slices and strings: indexing and \<^verbatim>\<open>append\<close>\<close>







subsection \<open>Types, their descriptors, and conversion to \<^verbatim>\<open>any\<close>\<close>










subsection \<open>A small program\<close>






text \<open>Two variables of type \<^verbatim>\<open>any\<close> of a caller: an \<^verbatim>\<open>int32\<close> at \<open>0x10\<close> and a \<open>Kind\<close> at \<open>0x20\<close>.\<close>

definition example_vars :: "64 anyvars" where
  "example_vars = [0x10 \<mapsto> \<lparr>Type = 0x1000, Data = 0x2000\<rparr>,
                   0x20 \<mapsto> \<lparr>Type = 0x1040, Data = 0x2008\<rparr>]"

section \<open>Properties\<close>

subsection \<open>Type forgery and invention\<close>



subsection \<open>Buffer aliasing\<close>

text \<open>
  C3. For every byte slice, the string returned by \<^verbatim>\<open>ByteString\<close> has the slice's data
  pointer and the slice's length, so in the memory of the call its content is the
  content of the slice.
\<close>

theorem ByteString_view:
  "StringInternal.Data (ByteString bytes) = SliceInternal.Data bytes \<and>
   StringInternal.Len (ByteString bytes) = SliceInternal.Len bytes \<and>
   string_content mem (ByteString bytes) = slice_content mem bytes"
  by (simp add: ByteString_def string_content_def slice_content_def)











subsection \<open>Identity accessors\<close>












subsection \<open>Escape-analysis suppression and constants\<close>

text \<open>
  C7. For every pointer \<open>p\<close>, on every pointer width, \<^verbatim>\<open>NoEscape(p)\<close> returns a pointer
  bitwise equal to \<open>p\<close>: the exclusive-or with zero changes no bit.
\<close>

theorem NoEscape_identity: "NoEscape p = p"
  by (simp add: NoEscape_def)

text \<open>
  C8. \<^verbatim>\<open>SystemPointerSize\<close> is the pointer width in bytes: the constant expression
  evaluates to 8 when \<^verbatim>\<open>uintptr\<close> has 64 bits and to 4 when it has 32 bits.
\<close>

theorem SystemPointerSize_value:
  "SystemPointerSize TYPE(64) = 8 \<and> SystemPointerSize TYPE(64) * 8 = LENGTH(64) \<and>
   SystemPointerSize TYPE(32) = 4 \<and> SystemPointerSize TYPE(32) * 8 = LENGTH(32)"
  by (simp add: SystemPointerSize_def)

text \<open>
  C9, as amended. \<open>BucketSize\<close> is 8; the top-hash sentinels are 0 to 4, all below
  \<open>MinimumTopHash = 5\<close>; there are four map-state flags, distinct and of a single bit
  each (1, 2, 4, 8); and there are four type flags, distinct and of a single bit each
  (1, 2, 4, 8).
\<close>

theorem wire_constants:
  "BucketSize = 8 \<and>
   LastEmptyCell = 0 \<and> EmptyCell = 1 \<and> EvacuatedToFirstHalf = 2 \<and>
   EvacuatedToSecondHalf = 3 \<and> EvacuatedAndEmpty = 4 \<and> MinimumTopHash = 5 \<and>
   list_all (\<lambda>c. c < MinimumTopHash) TopHash_sentinels \<and>
   length MapFlags_declared = 4 \<and> distinct MapFlags_declared \<and>
   list_all single_bit MapFlags_declared \<and> MapFlags_declared = [1, 2, 4, 8] \<and>
   length TypeFlags_declared = 4 \<and> distinct TypeFlags_declared \<and>
   list_all single_bit TypeFlags_declared \<and> TypeFlags_declared = [1, 2, 4, 8]"
  by (simp add: BucketSize_def LastEmptyCell_def EmptyCell_def EvacuatedToFirstHalf_def
      EvacuatedToSecondHalf_def EvacuatedAndEmpty_def MinimumTopHash_def TopHash_sentinels_def
      MapFlags_declared_def BeingUsedByIterator_def OldBeingUsedByIterator_def
      BeingWrittenTo_def GrowingToSameSize_def TypeFlags_declared_def TFlagUncommon_def
      TFlagExtraStar_def TFlagNamed_def TFlagRegularMemory_def single_bit_def upt_rec)

text \<open>
  The map-state flags are not five distinct single-bit constants: four are declared.
\<close>

theorem map_flags_not_five:
  "\<not> (length MapFlags_declared = 5 \<and> distinct MapFlags_declared \<and>
      list_all single_bit MapFlags_declared)"
  by (simp add: MapFlags_declared_def)

subsection \<open>\<^verbatim>\<open>Spoof\<close> works on its own copy\<close>

text \<open>
  C10. A call \<^verbatim>\<open>Spoof(a, b)\<close> whose parameters are new variables returns the forged value
  \<open>Spoof a b\<close>, which reports the type of \<open>b\<close>, and writes to the parameters only: the
  caller's variables still hold \<open>a\<close> and \<open>b\<close>, so \<open>a\<close> still reports its own type.
\<close>

theorem Spoof_by_value:
  assumes "vars pa = Some a" and "vars pb = Some b"
      and "vars pt1 = None" and "vars pt2 = None" and "pt1 \<noteq> pt2"
  shows "Spoof_call vars pa pb pt1 pt2
           = Some (Spoof a b, vars(pt1 \<mapsto> Spoof a b, pt2 \<mapsto> b)) \<and>
         (vars(pt1 \<mapsto> Spoof a b, pt2 \<mapsto> b)) pa = Some a \<and>
         (vars(pt1 \<mapsto> Spoof a b, pt2 \<mapsto> b)) pb = Some b \<and>
         GetTypePointer (Spoof a b) = GetTypePointer b"
proof -
  from assms have ne: "pa \<noteq> pt1" "pa \<noteq> pt2" "pb \<noteq> pt1" "pb \<noteq> pt2" by auto
  let ?vars' = "vars(pt1 \<mapsto> Spoof a b, pt2 \<mapsto> b)"
  have "Spoof_call vars pa pb pt1 pt2 = Some (Spoof a b, ?vars')"
    using assms ne by (simp add: Spoof_call_def Spoof_body_def Spoof_def fun_upd_twist)
  moreover have "?vars' pa = Some a" "?vars' pb = Some b"
    using assms ne by simp_all
  moreover have "GetTypePointer (Spoof a b) = GetTypePointer b"
    by (simp add: Spoof_def GetTypePointer_def)
  ultimately show ?thesis by blast
qed

text \<open>
  The theorem at the caller's two variables: the result has the type pointer of the
  second and the data pointer of the first, and the first variable is unchanged.
\<close>

theorem Spoof_by_value_witness:
  "map_option fst (Spoof_call example_vars 0x10 0x20 0x30 0x40)
     = Some \<lparr>Type = 0x1040, Data = 0x2000\<rparr> \<and>
   (example_vars(0x30 \<mapsto> \<lparr>Type = 0x1040, Data = 0x2000\<rparr>,
                 0x40 \<mapsto> \<lparr>Type = 0x1040, Data = 0x2008\<rparr>)) 0x10
     = Some \<lparr>Type = 0x1000, Data = 0x2000\<rparr>"
proof -
  have a: "example_vars 0x10 = Some \<lparr>Type = 0x1000, Data = 0x2000\<rparr>"
    and b: "example_vars 0x20 = Some \<lparr>Type = 0x1040, Data = 0x2008\<rparr>"
    and t1: "example_vars 0x30 = None" and t2: "example_vars 0x40 = None"
    by (simp_all add: example_vars_def)
  have ne: "(0x30 :: 64 word) \<noteq> 0x40" by simp
  have sp: "Spoof \<lparr>Type = 0x1000, Data = 0x2000\<rparr> \<lparr>Type = 0x1040, Data = 0x2008 :: 64 word\<rparr>
      = \<lparr>Type = 0x1040, Data = 0x2000\<rparr>"
    by (simp add: Spoof_def GetTypePointer_def)
  from Spoof_by_value [OF a b t1 t2 ne] show ?thesis
    unfolding sp by simp
qed

end
